theory Spec2Isabelle
  imports Main "HOL-Library.Word"
begin

unbundle bit_operations_syntax

section \<open>The racetrack grid model: a shallow embedding of racetrack.py and track\_builder.py\<close>

text \<open>
  The Python code keeps four numpy layers in a \<open>RaceTrack\<close> object, answers masked
  queries over them, flips the \<open>active\<close> layer in \<open>toggle\<close>, pickles its fields and
  is edited in place by \<open>click_track\<close>. The model below follows the source function
  by function:
  \<^item> a numpy array is a record of its shape and its cell values. All layers are
    two-dimensional (the constructor unpacks \<open>rows, cols = self.shape\<close>), and the
    cells hold integers: \<open>blank_track\<close> and the editor store the numbers 0 and 1 and
    the selected colour, and every mask is taken through \<open>astype(int)\<close>. Where the
    dtype of an array decides what is stored (\<open>1 - x\<close> in \<open>toggle\<close>, the selected
    colour in the editor), the arithmetic of the dtype is a parameter of the function;
  \<^item> an exception is a value of \<open>error\<close>; a function that can raise returns
    \<open>error + 'a\<close>, and a method that mutates the track and may raise afterwards
    returns the state it leaves behind together with the exception, if any;
  \<^item> the track object keeps its arrays by reference: the queries and \<open>render\<close> read a
    track of array values, and \<open>toggle\<close> and the editor write into a store of arrays
    that the object's layers point into, so that layers sharing one array change
    together;
  \<^item> the pygame surface is the list of drawing calls that \<open>render\<close> issues, cell by
    cell, with the canvas size and the grid they were computed from. The pixel
    geometry (\<open>w = width / cols\<close>, \<open>0.2 * w\<close>, ...) is floating point and is not
    evaluated;
  \<^item> the file system is a map from file names to what was pickled there.
\<close>

subsection \<open>Exceptions\<close>

datatype error =
    ValueError
  | IndexError
  | KeyError
  | ZeroDivisionError
  | FileNotFoundError
  | UnpicklingError
  | EOFError
  | TypeError
  | OverflowError

subsection \<open>numpy arrays and the operations the source uses\<close>

record ndarray =
  dims :: "nat \<times> nat"
  elems :: "nat \<times> nat \<Rightarrow> int"

text \<open>\<open>np.zeros(shape)\<close> and \<open>np.ones(shape)\<close>.\<close>

definition np_zeros :: "nat \<times> nat \<Rightarrow> ndarray" where
  "np_zeros sh = \<lparr>dims = sh, elems = (\<lambda>p. 0)\<rparr>"

definition np_ones :: "nat \<times> nat \<Rightarrow> ndarray" where
  "np_ones sh = \<lparr>dims = sh, elems = (\<lambda>p. 1)\<rparr>"

text \<open>\<open>(a == v).astype(int)\<close>: the comparison with a scalar, True as 1.\<close>

definition eq_scalar :: "ndarray \<Rightarrow> int \<Rightarrow> ndarray" where
  "eq_scalar a v = \<lparr>dims = dims a, elems = (\<lambda>p. if elems a p = v then 1 else 0)\<rparr>"

text \<open>\<open>(1 - a).astype(int)\<close>.\<close>

definition one_minus :: "ndarray \<Rightarrow> ndarray" where
  "one_minus a = \<lparr>dims = dims a, elems = (\<lambda>p. 1 - elems a p)\<rparr>"

text \<open>
  An elementwise binary operator broadcasts its operands: two axes fit when they are
  equal or one of them is 1, and an axis of length 1 is read at index 0 throughout.
  Operands that do not fit raise ValueError.
\<close>

definition broadcast_dim :: "nat \<Rightarrow> nat \<Rightarrow> nat option" where
  "broadcast_dim a b =
     (if a = b then Some a else if a = 1 then Some b else if b = 1 then Some a else None)"

definition bcast :: "ndarray \<Rightarrow> nat \<times> nat \<Rightarrow> int" where
  "bcast x p = elems x (if fst (dims x) = 1 then 0 else fst p,
                        if snd (dims x) = 1 then 0 else snd p)"

definition np_binop :: "(int \<Rightarrow> int \<Rightarrow> int) \<Rightarrow> ndarray \<Rightarrow> ndarray \<Rightarrow> error + ndarray" where
  "np_binop f x y =
     (case broadcast_dim (fst (dims x)) (fst (dims y)) of
        None \<Rightarrow> Inl ValueError
      | Some r \<Rightarrow>
          (case broadcast_dim (snd (dims x)) (snd (dims y)) of
             None \<Rightarrow> Inl ValueError
           | Some c \<Rightarrow> Inr \<lparr>dims = (r, c), elems = (\<lambda>p. f (bcast x p) (bcast y p))\<rparr>))"

definition np_and :: "ndarray \<Rightarrow> ndarray \<Rightarrow> error + ndarray" where
  "np_and = np_binop (\<lambda>a b. a AND b)"

definition np_or :: "ndarray \<Rightarrow> ndarray \<Rightarrow> error + ndarray" where
  "np_or = np_binop (\<lambda>a b. a OR b)"

text \<open>
  The cells of a grid in row-major order, \<open>product(range(rows), range(cols))\<close>, and
  \<open>np.where(a)\<close>: the indices of the nonzero cells in that order.
\<close>

definition cells_of :: "nat \<times> nat \<Rightarrow> (nat \<times> nat) list" where
  "cells_of sh = List.product [0..<fst sh] [0..<snd sh]"

definition np_where :: "ndarray \<Rightarrow> (nat \<times> nat) list" where
  "np_where a = filter (\<lambda>p. elems a p \<noteq> 0) (cells_of (dims a))"

text \<open>\<open>np.full(shape, v)\<close>, used for the concrete tracks below.\<close>

definition np_full :: "nat \<times> nat \<Rightarrow> int \<Rightarrow> ndarray" where
  "np_full sh v = \<lparr>dims = sh, elems = (\<lambda>p. v)\<rparr>"

text \<open>\<open>a[r, c]\<close> and \<open>a[r, c] = v\<close> with non-negative indices: IndexError out of range.\<close>

definition in_bounds :: "ndarray \<Rightarrow> nat \<times> nat \<Rightarrow> bool" where
  "in_bounds a p \<longleftrightarrow> fst p < fst (dims a) \<and> snd p < snd (dims a)"

definition getitem :: "ndarray \<Rightarrow> nat \<times> nat \<Rightarrow> error + int" where
  "getitem a p = (if in_bounds a p then Inr (elems a p) else Inl IndexError)"


subsection \<open>The surface and the track\<close>

text \<open>
  One drawing call of \<open>render\<close>, with the palette colour and the cell it is drawn in.
  \<open>Rect colour row col flag\<close> is \<open>pygame.draw.rect\<close> with thickness \<open>0\<close> (filled)
  when the flag is set and \<open>int(0.2 * w)\<close> otherwise.
\<close>

datatype draw_op =
    Rect string nat nat bool
  | Circle string nat nat
  | BlitStar nat nat
  | BlitTriangle nat nat
  | GridLine nat nat

record surface =
  get_width :: nat
  get_height :: nat
  cell_grid :: "nat \<times> nat"
  ops :: "draw_op list"

record RaceTrack =
  walls :: ndarray
  active :: ndarray
  buttons :: ndarray
  colors :: ndarray
  shape :: "nat \<times> nat"
  spawn :: "int \<times> int"
  target :: "int \<times> int"
  surface :: surface
  screen_size :: "nat \<times> nat"

text \<open>\<open>colors_basic\<close>, the palette every track gets in \<open>__init__\<close>.\<close>

definition color_scheme :: "int \<rightharpoonup> string" where
  "color_scheme =
     [0 \<mapsto> ''#ffffff'', 1 \<mapsto> ''#000000'', 2 \<mapsto> ''#d20000'', 3 \<mapsto> ''#de9f00'',
      4 \<mapsto> ''#00AE00'', 5 \<mapsto> ''#0000cd'', 6 \<mapsto> ''#8b008b'', 7 \<mapsto> ''#739F9F'']"

subsection \<open>render\<close>

text \<open>
  The body of the loop of \<open>render\<close> for one cell: the four layer reads in the source's
  order, the palette lookup, then the drawing calls.
\<close>

definition render_cell :: "RaceTrack \<Rightarrow> nat \<times> nat \<Rightarrow> error + draw_op list" where
  "render_cell t p =
     (case getitem (active t) p of Inl e \<Rightarrow> Inl e | Inr act \<Rightarrow>
      (case getitem (walls t) p of Inl e \<Rightarrow> Inl e | Inr wall \<Rightarrow>
      (case getitem (colors t) p of Inl e \<Rightarrow> Inl e | Inr color_type \<Rightarrow>
      (case getitem (buttons t) p of Inl e \<Rightarrow> Inl e | Inr button \<Rightarrow>
      (case color_scheme color_type of None \<Rightarrow> Inl KeyError | Some color \<Rightarrow>
         Inr ((if wall \<noteq> 0 then [Rect color (fst p) (snd p) (act \<noteq> 0)]
               else if button \<noteq> 0 then [Circle color (fst p) (snd p)]
               else if (int (fst p), int (snd p)) = target t then [BlitStar (fst p) (snd p)]
               else [])
              @ (if (int (fst p), int (snd p)) = spawn t then [BlitTriangle (fst p) (snd p)]
                 else [])
              @ [GridLine (fst p) (snd p)]))))))"

fun render_cells :: "RaceTrack \<Rightarrow> (nat \<times> nat) list \<Rightarrow> error + draw_op list" where
  "render_cells t [] = Inr []"
| "render_cells t (p # ps) =
     (case render_cell t p of Inl e \<Rightarrow> Inl e | Inr a \<Rightarrow>
      (case render_cells t ps of Inl e \<Rightarrow> Inl e | Inr b \<Rightarrow> Inr (a @ b)))"

text \<open>
  \<open>render(width, height)\<close>: \<open>width / cols\<close> and \<open>height / rows\<close> raise
  ZeroDivisionError on an empty grid; then the cells in the order of
  \<open>product(range(rows), range(cols))\<close>.
\<close>

definition render :: "RaceTrack \<Rightarrow> nat \<Rightarrow> nat \<Rightarrow> error + surface" where
  "render t width height =
     (if snd (shape t) = 0 \<or> fst (shape t) = 0 then Inl ZeroDivisionError
      else (case render_cells t (cells_of (shape t)) of
              Inl e \<Rightarrow> Inl e
            | Inr os \<Rightarrow>
                Inr \<lparr>get_width = width, get_height = height, cell_grid = shape t, ops = os\<rparr>))"

subsection \<open>The constructor\<close>

text \<open>
  \<open>RaceTrack.__init__\<close>: the shape test on walls, active and buttons, the field
  assignments, and the first render at \<open>screen_size\<close>. The surface is unset until
  the render returns; \<open>no_surface\<close> stands for the unset attribute, which \<open>render\<close>
  never reads.
\<close>

definition no_surface :: surface where
  "no_surface = \<lparr>get_width = 0, get_height = 0, cell_grid = (0, 0), ops = []\<rparr>"

definition RaceTrack_init ::
  "ndarray \<Rightarrow> ndarray \<Rightarrow> ndarray \<Rightarrow> ndarray \<Rightarrow> int \<times> int \<Rightarrow> int \<times> int \<Rightarrow> nat \<times> nat
     \<Rightarrow> error + RaceTrack" where
  "RaceTrack_init w a b c tgt spn scr =
     (if \<not> (dims w = dims a \<and> dims a = dims b) then Inl ValueError
      else
        (let t = \<lparr>walls = w, active = a, buttons = b, colors = c, shape = dims w,
                  spawn = spn, target = tgt, surface = no_surface, screen_size = scr\<rparr>
         in (case render t (fst scr) (snd scr) of
               Inl e \<Rightarrow> Inl e
             | Inr s \<Rightarrow> Inr (t\<lparr>surface := s\<rparr>))))"

subsection \<open>Queries\<close>

text \<open>
  \<open>find_wall_locations_np(color, active)\<close>: the two masks (a comparison with the
  filter, or \<open>np.ones(self.shape)\<close> when the filter is None; a Python bool compares
  as 0 or 1), then \<open>np.where(walls.astype(int) & color_mask & active_mask)\<close>.
\<close>

definition color_mask :: "RaceTrack \<Rightarrow> int option \<Rightarrow> ndarray" where
  "color_mask t color =
     (case color of Some c \<Rightarrow> eq_scalar (colors t) c | None \<Rightarrow> np_ones (shape t))"

definition active_mask :: "RaceTrack \<Rightarrow> bool option \<Rightarrow> ndarray" where
  "active_mask t act =
     (case act of Some a \<Rightarrow> eq_scalar (active t) (if a then 1 else 0)
      | None \<Rightarrow> np_ones (shape t))"

definition find_wall_locations_np ::
  "RaceTrack \<Rightarrow> int option \<Rightarrow> bool option \<Rightarrow> error + (nat \<times> nat) list" where
  "find_wall_locations_np t color act =
     (case np_and (walls t) (color_mask t color) of Inl e \<Rightarrow> Inl e | Inr x \<Rightarrow>
      (case np_and x (active_mask t act) of Inl e \<Rightarrow> Inl e | Inr y \<Rightarrow>
         Inr (np_where y)))"

definition find_wall_locations ::
  "RaceTrack \<Rightarrow> int option \<Rightarrow> bool option \<Rightarrow> error + (nat \<times> nat) set" where
  "find_wall_locations t color act =
     (case find_wall_locations_np t color act of Inl e \<Rightarrow> Inl e | Inr ps \<Rightarrow> Inr (set ps))"

definition find_buttons :: "RaceTrack \<Rightarrow> int option \<Rightarrow> error + (nat \<times> nat) set" where
  "find_buttons t color =
     (case np_and (buttons t) (color_mask t color) of Inl e \<Rightarrow> Inl e | Inr x \<Rightarrow>
        Inr (set (np_where x)))"

definition find_traversable_cells :: "RaceTrack \<Rightarrow> error + (nat \<times> nat) set" where
  "find_traversable_cells t =
     (case np_or (eq_scalar (walls t) 0) (one_minus (active t)) of Inl e \<Rightarrow> Inl e | Inr x \<Rightarrow>
        Inr (set (np_where x)))"

subsection \<open>Statements that mutate and may raise\<close>





subsection \<open>Arrays held by reference\<close>

text \<open>
  \<open>__init__\<close> keeps the very arrays it is given (\<open>self.walls = walls\<close>, ...), and
  \<open>toggle\<close> and the editor assign into them in place. Two layers that were given one
  array therefore change together. The object holds the addresses of its four arrays
  in a store of arrays, beside its other attributes; \<open>view\<close> is the track as a
  method reads it through these addresses, and the queries and \<open>render\<close> above are
  applied to the view.
\<close>

type_synonym addr = nat

type_synonym store = "addr \<Rightarrow> ndarray"

record RaceTrack_obj =
  walls_ref :: addr
  active_ref :: addr
  buttons_ref :: addr
  colors_ref :: addr
  shape_attr :: "nat \<times> nat"
  spawn_attr :: "int \<times> int"
  target_attr :: "int \<times> int"
  surface_attr :: surface
  screen_size_attr :: "nat \<times> nat"

type_synonym state = "store \<times> RaceTrack_obj"

definition view :: "store \<Rightarrow> RaceTrack_obj \<Rightarrow> RaceTrack" where
  "view \<sigma> ob =
     \<lparr>walls = \<sigma> (walls_ref ob), active = \<sigma> (active_ref ob), buttons = \<sigma> (buttons_ref ob),
      colors = \<sigma> (colors_ref ob), shape = shape_attr ob, spawn = spawn_attr ob,
      target = target_attr ob, surface = surface_attr ob, screen_size = screen_size_attr ob\<rparr>"


subsection \<open>toggle\<close>





subsection \<open>save, load\_track, blank\_track\<close>

text \<open>
  \<open>save\<close> pickles the tuple of seven fields into the named file; \<open>load_track\<close> opens
  the file, unpickles it, calls the constructor on the tuple and renders once more at
  the stored \<open>screen_size\<close>. A file holds a pickled tuple of seven, or bytes on
  which \<open>pickle.load\<close> raises (UnpicklingError, EOFError on an empty file, ...), or the
  pickle of an object that does not unpack into seven arguments, on which
  \<open>RaceTrack(*data)\<close> raises TypeError; opening a name that is not there raises
  FileNotFoundError. \<open>load_track\<close> handles none of these.
  \<open>memory\<close> are the tracks that exist in the process besides the one being loaded.
\<close>

type_synonym save_data =
  "ndarray \<times> ndarray \<times> ndarray \<times> ndarray \<times> (int \<times> int) \<times> (int \<times> int) \<times> (nat \<times> nat)"

datatype stored = Pickled save_data | Unreadable error | Other_object

record world =
  files :: "string \<rightharpoonup> stored"
  memory :: "RaceTrack list"

definition save :: "RaceTrack \<Rightarrow> string \<Rightarrow> world \<Rightarrow> world" where
  "save t filename w =
     w\<lparr>files := (files w)(filename \<mapsto>
          Pickled (walls t, active t, buttons t, colors t, target t, spawn t, screen_size t))\<rparr>"

definition load_track :: "string \<Rightarrow> world \<Rightarrow> (error + RaceTrack) \<times> world" where
  "load_track filename w =
     (case files w filename of
        None \<Rightarrow> (Inl FileNotFoundError, w)
      | Some (Unreadable e) \<Rightarrow> (Inl e, w)
      | Some Other_object \<Rightarrow> (Inl TypeError, w)
      | Some (Pickled (wl, ac, bt, cl, tgt, spn, scr)) \<Rightarrow>
          (case RaceTrack_init wl ac bt cl tgt spn scr of
             Inl e \<Rightarrow> (Inl e, w)
           | Inr track \<Rightarrow>
               (case render track (fst (screen_size track)) (snd (screen_size track)) of
                  Inl e \<Rightarrow> (Inl e, w)
                | Inr s \<Rightarrow> (Inr (track\<lparr>surface := s\<rparr>), w))))"

definition blank_track :: "nat \<times> nat \<Rightarrow> nat \<times> nat \<Rightarrow> int \<Rightarrow> error + RaceTrack" where
  "blank_track grid_size scr n_colors =
     RaceTrack_init (np_zeros grid_size) (np_ones grid_size) (np_zeros grid_size)
       (np_zeros grid_size) (int (fst grid_size) - 1, int (snd grid_size) - 1) (0, 0) scr"

subsection \<open>click\_track\<close>















subsection \<open>Well-formed tracks\<close>

text \<open>
  \<open>cell_ok\<close> is what \<open>render\<close> needs of one cell: the four reads are in range and
  the colour is a key of the palette. \<open>renderable\<close> is what it needs of the track.
\<close>

definition cell_ok :: "RaceTrack \<Rightarrow> nat \<times> nat \<Rightarrow> bool" where
  "cell_ok t p \<longleftrightarrow>
     in_bounds (active t) p \<and> in_bounds (walls t) p \<and> in_bounds (colors t) p
     \<and> in_bounds (buttons t) p \<and> color_scheme (elems (colors t) p) \<noteq> None"

definition renderable :: "RaceTrack \<Rightarrow> bool" where
  "renderable t \<longleftrightarrow>
     0 < fst (shape t) \<and> 0 < snd (shape t) \<and> list_all (cell_ok t) (cells_of (shape t))"

text \<open>
  The four layers have the shape recorded in \<open>shape\<close>; the active layer holds
  booleans (0 or 1 in every cell); no cell is both a wall and a button.
\<close>

definition layers_agree :: "RaceTrack \<Rightarrow> bool" where
  "layers_agree t \<longleftrightarrow>
     dims (walls t) = shape t \<and> dims (active t) = shape t
     \<and> dims (buttons t) = shape t \<and> dims (colors t) = shape t"

definition flag_layer :: "ndarray \<Rightarrow> bool" where
  "flag_layer a \<longleftrightarrow> list_all (\<lambda>p. elems a p = 0 \<or> elems a p = 1) (cells_of (dims a))"

definition exclusive :: "RaceTrack \<Rightarrow> bool" where
  "exclusive t \<longleftrightarrow>
     list_all (\<lambda>p. elems (walls t) p = 0 \<or> elems (buttons t) p = 0) (cells_of (shape t))"

text \<open>
  Concrete tracks: the fields as \<open>__init__\<close> assigns them, for given layers, with
  spawn and target at the origin and a 10 by 10 canvas.
\<close>

definition mk_track :: "ndarray \<Rightarrow> ndarray \<Rightarrow> ndarray \<Rightarrow> ndarray \<Rightarrow> RaceTrack" where
  "mk_track w a b c =
     \<lparr>walls = w, active = a, buttons = b, colors = c, shape = dims w,
      spawn = (0, 0), target = (0, 0), surface = no_surface, screen_size = (10, 10)\<rparr>"

text \<open>
  A track as the constructor leaves it: \<open>shape\<close> is the shape of walls, active and
  buttons, and the track renders. The editor needs less: every cell of \<open>shape\<close> can be
  assigned in the four layers.
\<close>

definition constructed :: "RaceTrack \<Rightarrow> bool" where
  "constructed t \<longleftrightarrow>
     shape t = dims (walls t) \<and> dims (walls t) = dims (active t)
     \<and> dims (active t) = dims (buttons t) \<and> renderable t"

definition editable :: "RaceTrack \<Rightarrow> bool" where
  "editable t \<longleftrightarrow>
     dims (walls t) = shape t \<and> dims (active t) = shape t \<and> dims (buttons t) = shape t
     \<and> fst (shape t) \<le> fst (dims (colors t)) \<and> snd (shape t) \<le> snd (dims (colors t))"

text \<open>
  The four layers of an object are four different arrays.
\<close>

definition separate :: "RaceTrack_obj \<Rightarrow> bool" where
  "separate ob \<longleftrightarrow> distinct [walls_ref ob, active_ref ob, buttons_ref ob, colors_ref ob]"




text \<open>The track a state shows, and an active layer that is no other layer's array.\<close>

definition track_of :: "state \<Rightarrow> RaceTrack" where
  "track_of s = view (fst s) (snd s)"


text \<open>The array after \<open>a[p] = v\<close>.\<close>

definition assigned :: "ndarray \<Rightarrow> nat \<times> nat \<Rightarrow> int \<Rightarrow> ndarray" where
  "assigned a p v = a\<lparr>elems := (elems a)(p := v)\<rparr>"


section \<open>Lemmas\<close>

subsection \<open>Arrays\<close>

lemma set_cells_of: "p \<in> set (cells_of sh) \<longleftrightarrow> fst p < fst sh \<and> snd p < snd sh"
  by (cases p) (auto simp: cells_of_def)

lemma cells_of_1_1: "cells_of (Suc 0, Suc 0) = [(0, 0)]"
  by (simp add: cells_of_def)


lemma set_np_where: "set (np_where a) = {p. in_bounds a p \<and> elems a p \<noteq> 0}"
  by (auto simp: np_where_def in_bounds_def set_cells_of)

lemma bcast_in_bounds: "in_bounds x p \<Longrightarrow> bcast x p = elems x p"
  by (cases p) (auto simp: bcast_def in_bounds_def)

lemma np_binop_same:
  "dims x = dims y \<Longrightarrow>
   np_binop f x y = Inr \<lparr>dims = dims x, elems = (\<lambda>p. f (bcast x p) (bcast y p))\<rparr>"
  by (simp add: np_binop_def broadcast_dim_def)

subsection \<open>render succeeds exactly on renderable tracks, and never reads the surface\<close>

lemma render_cell_ok_iff: "(\<exists>os. render_cell t p = Inr os) \<longleftrightarrow> cell_ok t p"
  by (auto simp: cell_ok_def render_cell_def getitem_def
      split: if_splits sum.splits option.splits)

lemma render_cells_ok_iff: "(\<exists>os. render_cells t ps = Inr os) \<longleftrightarrow> list_all (cell_ok t) ps"
proof (induction ps)
  case Nil
  show ?case by simp
next
  case (Cons p ps)
  show ?case
    using Cons.IH render_cell_ok_iff [of t p]
    by (auto split: sum.splits)
qed

lemma render_ok_iff: "(\<exists>s. render t w h = Inr s) \<longleftrightarrow> renderable t"
  using render_cells_ok_iff [of t "cells_of (shape t)"]
  by (auto simp: render_def renderable_def split: sum.splits)

lemma render_size: "render t w h = Inr s \<Longrightarrow> get_width s = w \<and> get_height s = h"
  by (auto simp: render_def split: if_splits sum.splits)

lemma render_cell_surface [simp]: "render_cell (t\<lparr>surface := s\<rparr>) p = render_cell t p"
  by (simp add: render_cell_def cong: sum.case_cong option.case_cong)

lemma render_cells_surface [simp]: "render_cells (t\<lparr>surface := s\<rparr>) ps = render_cells t ps"
  by (induction ps) (simp_all split: sum.splits)

lemma render_surface [simp]: "render (t\<lparr>surface := s\<rparr>) w h = render t w h"
  by (simp add: render_def split: sum.splits)

subsection \<open>The constructor\<close>

lemma RaceTrack_init_Inr:
  assumes "dims w = dims a" and "dims a = dims b"
    and "renderable \<lparr>walls = w, active = a, buttons = b, colors = c, shape = dims w,
                  spawn = spn, target = tgt, surface = no_surface, screen_size = scr\<rparr>"
  shows "\<exists>s. RaceTrack_init w a b c tgt spn scr =
             Inr \<lparr>walls = w, active = a, buttons = b, colors = c, shape = dims w,
                  spawn = spn, target = tgt, surface = s, screen_size = scr\<rparr>"
proof -
  let ?t = "\<lparr>walls = w, active = a, buttons = b, colors = c, shape = dims w,
                  spawn = spn, target = tgt, surface = no_surface, screen_size = scr\<rparr>"
  from assms(3) obtain s where "render ?t (fst scr) (snd scr) = Inr s"
    using render_ok_iff [of ?t "fst scr" "snd scr"] by blast
  with assms(1,2) show ?thesis
    by (simp add: RaceTrack_init_def)
qed

text \<open>The constructor raises ValueError exactly when walls, active and buttons differ in shape.\<close>

lemma render_cell_no_ValueError: "render_cell t p \<noteq> Inl ValueError"
  by (auto simp: render_cell_def getitem_def split: if_splits sum.splits option.splits)

lemma render_cells_no_ValueError: "render_cells t ps \<noteq> Inl ValueError"
  by (induction ps) (auto simp: render_cell_no_ValueError split: sum.splits)

lemma render_no_ValueError: "render t w h \<noteq> Inl ValueError"
  by (auto simp: render_def render_cells_no_ValueError split: sum.splits)

lemma RaceTrack_init_ValueError_iff:
  "RaceTrack_init w a b c tgt spn scr = Inl ValueError
     \<longleftrightarrow> \<not> (dims w = dims a \<and> dims a = dims b)"
  by (auto simp: RaceTrack_init_def Let_def render_no_ValueError split: sum.splits)

subsection \<open>blank\_track\<close>

lemma blank_renderable:
  assumes "0 < fst gs" and "0 < snd gs"
  shows "renderable \<lparr>walls = np_zeros gs, active = np_ones gs, buttons = np_zeros gs,
            colors = np_zeros gs, shape = dims (np_zeros gs),
            spawn = spn, target = tgt, surface = no_surface, screen_size = scr\<rparr>"
  using assms
  by (auto simp: renderable_def list_all_iff cell_ok_def in_bounds_def np_zeros_def np_ones_def
        color_scheme_def set_cells_of)

lemma blank_track_fields:
  assumes "0 < fst gs" and "0 < snd gs"
  shows "\<exists>G. blank_track gs scr n = Inr G \<and> walls G = np_zeros gs \<and> active G = np_ones gs
           \<and> buttons G = np_zeros gs \<and> colors G = np_zeros gs
           \<and> target G = (int (fst gs) - 1, int (snd gs) - 1) \<and> spawn G = (0, 0)
           \<and> shape G = gs \<and> screen_size G = scr"
proof -
  have d: "dims (np_zeros gs) = dims (np_ones gs)" "dims (np_ones gs) = dims (np_zeros gs)"
    by (simp_all add: np_zeros_def np_ones_def)
  from RaceTrack_init_Inr [OF d blank_renderable [OF assms]]
  obtain s where "blank_track gs scr n =
     Inr \<lparr>walls = np_zeros gs, active = np_ones gs, buttons = np_zeros gs,
            colors = np_zeros gs, shape = dims (np_zeros gs),
            spawn = (0, 0), target = (int (fst gs) - 1, int (snd gs) - 1), surface = s,
            screen_size = scr\<rparr>"
    unfolding blank_track_def by blast
  then show ?thesis by (simp add: np_zeros_def)
qed

subsection \<open>The masked queries\<close>


lemma color_mask_dims:
  "dims (colors t) = shape t \<Longrightarrow> dims (color_mask t cf) = shape t"
  by (simp add: color_mask_def eq_scalar_def np_ones_def split: option.splits)


lemma color_mask_elems:
  "elems (color_mask t cf) p =
     (case cf of None \<Rightarrow> 1 | Some c \<Rightarrow> if elems (colors t) p = c then 1 else 0)"
  by (simp add: color_mask_def eq_scalar_def np_ones_def split: option.splits)


text \<open>
  What \<open>find_wall_locations_np\<close> returns on layers of one shape: the cells whose wall
  value is odd and that pass the two filters.
\<close>

lemma np_binop_agree:
  assumes "dims x = dims y"
  shows "\<exists>z. np_binop f x y = Inr z \<and> dims z = dims x
           \<and> (\<forall>p. in_bounds x p \<longrightarrow> elems z p = f (elems x p) (elems y p))"
proof -
  have "in_bounds x p \<Longrightarrow> in_bounds y p" for p
    using assms by (simp add: in_bounds_def)
  then show ?thesis
    using assms by (simp add: np_binop_same bcast_in_bounds)
qed


lemma or_mask_nonzero:
  fixes a b :: int
  shows "(a OR b \<noteq> 0) = (a \<noteq> 0 \<or> b \<noteq> 0)"
  by (simp add: or_eq_0_iff)

lemma and_mask_nonzero:
  fixes w b :: int
  assumes "b = 0 \<or> b = 1"
  shows "(w AND b \<noteq> 0) = (odd w \<and> b = 1)"
  using assms by (auto simp: and_one_eq mod_2_eq_odd)

lemma flag_layer_iff:
  "flag_layer a \<longleftrightarrow> (\<forall>p. in_bounds a p \<longrightarrow> elems a p = 0 \<or> elems a p = 1)"
  by (simp add: flag_layer_def list_all_iff Ball_def set_cells_of in_bounds_def)

lemma exclusive_iff:
  "exclusive t \<longleftrightarrow>
     (\<forall>p. fst p < fst (shape t) \<and> snd p < snd (shape t) \<longrightarrow>
          elems (walls t) p = 0 \<or> elems (buttons t) p = 0)"
  by (simp add: exclusive_def list_all_iff Ball_def set_cells_of)

text \<open>
  What \<open>find_traversable_cells\<close> returns when walls and active have one shape: the
  cells with no wall, and the cells whose active value is not 1.
\<close>

lemma find_traversable_cells_agree:
  assumes "dims (walls t) = dims (active t)"
  shows "find_traversable_cells t =
           Inr {p. in_bounds (walls t) p \<and> (elems (walls t) p = 0 \<or> elems (active t) p \<noteq> 1)}"
proof -
  let ?w0 = "eq_scalar (walls t) 0" and ?na = "one_minus (active t)"
  have d: "dims ?w0 = dims ?na"
    using assms by (simp add: eq_scalar_def one_minus_def)
  from np_binop_agree [OF d, of "\<lambda>a b. a OR b"]
  obtain z where z: "np_or ?w0 ?na = Inr z" and dz: "dims z = dims ?w0"
    and ez: "\<And>p. in_bounds ?w0 p \<Longrightarrow> elems z p = elems ?w0 p OR elems ?na p"
    unfolding np_or_def by blast
  have inb: "in_bounds z p = in_bounds (walls t) p" "in_bounds ?w0 p = in_bounds (walls t) p"
    for p
    using dz by (simp_all add: in_bounds_def eq_scalar_def)
  have mem: "p \<in> set (np_where z) \<longleftrightarrow>
      in_bounds (walls t) p \<and> (elems (walls t) p = 0 \<or> elems (active t) p \<noteq> 1)" for p
  proof (cases "in_bounds (walls t) p")
    case True
    then have "elems z p = elems ?w0 p OR elems ?na p"
      by (simp add: ez inb)
    then have "(elems z p \<noteq> 0) = (elems ?w0 p \<noteq> 0 \<or> elems ?na p \<noteq> 0)"
      by (simp only: or_mask_nonzero)
    also have "\<dots> = (elems (walls t) p = 0 \<or> elems (active t) p \<noteq> 1)"
      by (simp add: eq_scalar_def one_minus_def)
    finally show ?thesis using True by (simp add: set_np_where inb)
  next
    case False
    then show ?thesis by (simp add: set_np_where inb)
  qed
  have "set (np_where z) =
      {p. in_bounds (walls t) p \<and> (elems (walls t) p = 0 \<or> elems (active t) p \<noteq> 1)}"
    by (rule set_eqI) (simp only: mem mem_Collect_eq)
  then show ?thesis
    by (simp add: find_traversable_cells_def z)
qed

text \<open>
  What \<open>find_buttons\<close> returns on layers of one shape: the cells whose button value
  is odd and that pass the colour filter.
\<close>

lemma find_buttons_agree:
  assumes "layers_agree t"
  shows "find_buttons t cf =
           Inr {p. in_bounds (buttons t) p \<and> odd (elems (buttons t) p)
                 \<and> (case cf of None \<Rightarrow> True | Some c \<Rightarrow> elems (colors t) p = c)}"
proof -
  let ?cm = "color_mask t cf"
  from assms have d: "dims (buttons t) = dims ?cm"
    by (simp add: layers_agree_def color_mask_dims)
  from np_binop_agree [OF d, of "\<lambda>a b. a AND b"]
  obtain x where x: "np_and (buttons t) ?cm = Inr x" and dx: "dims x = dims (buttons t)"
    and ex: "\<And>p. in_bounds (buttons t) p \<Longrightarrow> elems x p = elems (buttons t) p AND elems ?cm p"
    unfolding np_and_def by blast
  have inb: "in_bounds x p = in_bounds (buttons t) p" for p
    using dx by (simp add: in_bounds_def)
  have cm01: "elems ?cm p = 0 \<or> elems ?cm p = 1" for p
    by (simp add: color_mask_elems split: option.splits)
  have cm1: "(elems ?cm p = 1) = (case cf of None \<Rightarrow> True | Some c \<Rightarrow> elems (colors t) p = c)"
    for p
    by (simp add: color_mask_elems split: option.splits)
  have mem: "p \<in> set (np_where x) \<longleftrightarrow>
      in_bounds (buttons t) p \<and> odd (elems (buttons t) p) \<and> elems ?cm p = 1" for p
  proof (cases "in_bounds (buttons t) p")
    case True
    then have "elems x p = elems (buttons t) p AND elems ?cm p"
      by (simp add: ex)
    then have "(elems x p \<noteq> 0) = (odd (elems (buttons t) p) \<and> elems ?cm p = 1)"
      using and_mask_nonzero [OF cm01 [of p], of "elems (buttons t) p"] by simp
    then show ?thesis using True by (simp add: set_np_where inb)
  next
    case False
    then show ?thesis by (simp add: set_np_where inb)
  qed
  have "set (np_where x) = {p. in_bounds (buttons t) p \<and> odd (elems (buttons t) p)
                 \<and> (case cf of None \<Rightarrow> True | Some c \<Rightarrow> elems (colors t) p = c)}"
    by (rule set_eqI) (simp only: mem cm1 mem_Collect_eq)
  then show ?thesis
    by (simp add: find_buttons_def x)
qed

subsection \<open>Constructed tracks\<close>

lemma cell_ok_fields:
  "cell_ok \<lparr>walls = walls t, active = active t, buttons = buttons t, colors = colors t,
       shape = sh, spawn = spn, target = tgt, surface = s, screen_size = scr\<rparr>
     = cell_ok t"
  by (rule ext) (simp add: cell_ok_def)

lemma cell_ok_surface: "cell_ok (t\<lparr>surface := s\<rparr>) = cell_ok t"
  by (rule ext) (simp add: cell_ok_def)

lemma renderable_fields:
  "renderable \<lparr>walls = walls t, active = active t, buttons = buttons t, colors = colors t,
       shape = shape t, spawn = spn, target = tgt, surface = s, screen_size = scr\<rparr>
     = renderable t"
  by (simp add: renderable_def cell_ok_fields)

lemma renderable_surface [simp]: "renderable (t\<lparr>surface := s\<rparr>) = renderable t"
  by (simp add: renderable_def cell_ok_surface)

text \<open>Every track the constructor returns is \<open>constructed\<close>, with the fields it was given.\<close>

lemma RaceTrack_init_constructed:
  assumes "RaceTrack_init w a b c tgt spn scr = Inr t"
  shows "constructed t \<and> walls t = w \<and> active t = a \<and> buttons t = b \<and> colors t = c
         \<and> target t = tgt \<and> spawn t = spn \<and> screen_size t = scr"
proof -
  let ?t0 = "\<lparr>walls = w, active = a, buttons = b, colors = c, shape = dims w,
                  spawn = spn, target = tgt, surface = no_surface, screen_size = scr\<rparr>"
  from assms have d: "dims w = dims a" "dims a = dims b"
    by (auto simp: RaceTrack_init_def split: if_splits)
  with assms have "(case render ?t0 (fst scr) (snd scr) of
                      Inl e \<Rightarrow> Inl e | Inr s \<Rightarrow> Inr (?t0\<lparr>surface := s\<rparr>)) = Inr t"
    by (simp add: RaceTrack_init_def Let_def cong: sum.case_cong)
  then obtain s where r: "render ?t0 (fst scr) (snd scr) = Inr s"
    and t: "t = ?t0\<lparr>surface := s\<rparr>"
    by (cases "render ?t0 (fst scr) (snd scr)") auto
  from r have "renderable ?t0"
    using render_ok_iff [of ?t0 "fst scr" "snd scr"] by blast
  then have "renderable (?t0\<lparr>surface := s\<rparr>)"
    by (simp only: renderable_surface)
  with d t show ?thesis
    by (simp add: constructed_def)
qed

lemma constructed_editable:
  assumes "constructed t"
  shows "editable t"
proof -
  from assms have sh: "shape t = dims (walls t)" "dims (walls t) = dims (active t)"
      "dims (active t) = dims (buttons t)"
    and pos: "0 < fst (shape t)" "0 < snd (shape t)"
    and cells: "list_all (cell_ok t) (cells_of (shape t))"
    by (auto simp: constructed_def renderable_def)
  let ?p = "(fst (shape t) - 1, snd (shape t) - 1)"
  from pos have "?p \<in> set (cells_of (shape t))"
    by (simp add: set_cells_of)
  with cells have "cell_ok t ?p"
    by (simp add: list_all_iff)
  then have "in_bounds (colors t) ?p"
    by (simp add: cell_ok_def)
  with pos have "fst (shape t) \<le> fst (dims (colors t)) \<and> snd (shape t) \<le> snd (dims (colors t))"
    by (simp add: in_bounds_def) linarith
  with sh show ?thesis
    by (simp add: editable_def)
qed

subsection \<open>The editor\<close>

lemma in_bounds_elems_update [simp]: "in_bounds (a\<lparr>elems := f\<rparr>) p = in_bounds a p"
  by (simp add: in_bounds_def)




lemma editable_surface [simp]: "editable (t\<lparr>surface := s\<rparr>) = editable t"
  by (simp add: editable_def)

lemma exclusive_surface [simp]: "exclusive (t\<lparr>surface := s\<rparr>) = exclusive t"
  by (simp add: exclusive_def)

subsection \<open>The view of a state\<close>

lemma view_layers [simp]:
  "walls (view \<sigma> ob) = \<sigma> (walls_ref ob)" "active (view \<sigma> ob) = \<sigma> (active_ref ob)"
  "buttons (view \<sigma> ob) = \<sigma> (buttons_ref ob)" "colors (view \<sigma> ob) = \<sigma> (colors_ref ob)"
  by (simp_all add: view_def)

lemma view_attrs [simp]:
  "shape (view \<sigma> ob) = shape_attr ob" "spawn (view \<sigma> ob) = spawn_attr ob"
  "target (view \<sigma> ob) = target_attr ob" "surface (view \<sigma> ob) = surface_attr ob"
  "screen_size (view \<sigma> ob) = screen_size_attr ob"
  by (simp_all add: view_def)


lemma track_of_pair [simp]: "track_of (\<sigma>, ob) = view \<sigma> ob"
  by (simp add: track_of_def)


subsection \<open>toggle\<close>






subsection \<open>The editor on arrays held by reference\<close>

lemma assigned_simps [simp]:
  "dims (assigned a p v) = dims a" "elems (assigned a p v) p = v"
  "q \<noteq> p \<Longrightarrow> elems (assigned a p v) q = elems a q"
  "in_bounds (assigned a p v) q = in_bounds a q"
  by (simp_all add: assigned_def in_bounds_def)









lemma separate_attrs [simp]:
  "separate (ob\<lparr>target_attr := x\<rparr>) = separate ob"
  "separate (ob\<lparr>spawn_attr := x\<rparr>) = separate ob"
  "separate (ob\<lparr>surface_attr := sf\<rparr>) = separate ob"
  by (simp_all add: separate_def)

lemma view_target: "view \<sigma> (ob\<lparr>target_attr := x\<rparr>) = (view \<sigma> ob)\<lparr>target := x\<rparr>"
  by (simp add: view_def)

lemma view_spawn: "view \<sigma> (ob\<lparr>spawn_attr := x\<rparr>) = (view \<sigma> ob)\<lparr>spawn := x\<rparr>"
  by (simp add: view_def)






section \<open>The claims\<close>

text \<open>
  C7, as the code has it: the palette \<open>colors_basic\<close> has eight entries, the keys 0 to 7;
  key 0 is white, the colour of a cell that was never painted, and key 7 is a palette
  entry like the others.
\<close>

theorem color_scheme_keys:
  "dom color_scheme = {0..7} \<and> card (dom color_scheme) = 8
   \<and> color_scheme 0 = Some ''#ffffff''"
proof -
  have "dom color_scheme = {0, 1, 2, 3, 4, 5, 6, 7}"
    by (auto simp: color_scheme_def)
  moreover have "{0, 1, 2, 3, 4, 5, 6, 7} = {0..7::int}"
    by auto
  moreover have "color_scheme 0 = Some ''#ffffff''"
    by (simp add: color_scheme_def)
  ultimately show ?thesis by simp
qed

text \<open>
  C7 as the claim states it, refuted: index 7 lies outside 0..6 and maps to a palette
  entry, and the palette has eight entries, not seven.
\<close>

theorem color_scheme_seven_refuted:
  "color_scheme 7 = Some ''#739F9F'' \<and> card (dom color_scheme) \<noteq> 7"
  by (simp add: color_scheme_def)

text \<open>
  C10: \<open>blank_track\<close> never reads \<open>n_colors\<close>: two calls that differ only in it return
  the same result, and on a grid with at least one row and one column that result is a
  track with all-zero walls, buttons and colors, all-ones active, target at
  \<open>(rows - 1, cols - 1)\<close> and spawn at \<open>(0, 0)\<close>.
\<close>

theorem blank_track_ignores_n_colors:
  "blank_track gs scr n1 = blank_track gs scr n2
   \<and> (0 < fst gs \<and> 0 < snd gs \<longrightarrow>
        (\<exists>G. blank_track gs scr n1 = Inr G \<and> blank_track gs scr n2 = Inr G
           \<and> walls G = np_zeros gs \<and> active G = np_ones gs
           \<and> buttons G = np_zeros gs \<and> colors G = np_zeros gs
           \<and> target G = (int (fst gs) - 1, int (snd gs) - 1) \<and> spawn G = (0, 0)))"
proof -
  have same: "blank_track gs scr n1 = blank_track gs scr n2"
    by (simp add: blank_track_def)
  show ?thesis
    using same blank_track_fields [of gs scr n1] by auto
qed

theorem blank_track_ignores_n_colors_witness:
  "blank_track (15, 10) (600, 900) 7 = blank_track (15, 10) (600, 900) 3
   \<and> (\<exists>G. blank_track (15, 10) (600, 900) 7 = Inr G \<and> blank_track (15, 10) (600, 900) 3 = Inr G
         \<and> target G = (14, 9) \<and> spawn G = (0, 0))"
  using blank_track_ignores_n_colors [of "(15, 10)" "(600, 900)" 7 3]
  by auto

text \<open>
  C2, the code at the failing input: walls, active and buttons of shape (1, 1) and a
  colors layer of shape (2, 2). The constructor tests three shapes only, the render
  reads \<open>colors[0, 0]\<close>, and the track is built.
\<close>

theorem init_accepts_other_colors_shape:
  "dims (np_zeros (2, 2)) \<noteq> dims (np_zeros (1, 1))
   \<and> (\<exists>s. RaceTrack_init (np_zeros (1, 1)) (np_ones (1, 1)) (np_zeros (1, 1)) (np_zeros (2, 2))
            (0, 0) (0, 0) (10, 10)
          = Inr \<lparr>walls = np_zeros (1, 1), active = np_ones (1, 1), buttons = np_zeros (1, 1),
                 colors = np_zeros (2, 2), shape = (1, 1), spawn = (0, 0), target = (0, 0),
                 surface = s, screen_size = (10, 10)\<rparr>)"
  by (simp add: RaceTrack_init_def render_def render_cell_def getitem_def in_bounds_def
      np_ones_def np_zeros_def color_scheme_def cells_of_1_1)

text \<open>
  C3, the code at the failing input: a 1 by 1 track whose only cell holds the wall
  value 2. The constructor builds it, \<open>render\<close> draws the cell as a wall and
  \<open>find_traversable_cells\<close> leaves it out as one, but \<open>2 & 1 = 0\<close> and
  \<open>find_wall_locations\<close> with no filter returns the empty set.
\<close>

theorem find_wall_locations_misses_even_wall:
  "(\<exists>s. RaceTrack_init (np_full (1, 1) 2) (np_ones (1, 1)) (np_zeros (1, 1)) (np_zeros (1, 1))
            (0, 0) (0, 0) (10, 10)
          = Inr ((mk_track (np_full (1, 1) 2) (np_ones (1, 1)) (np_zeros (1, 1)) (np_zeros (1, 1)))
                   \<lparr>surface := s\<rparr>))
   \<and> elems (walls (mk_track (np_full (1, 1) 2) (np_ones (1, 1)) (np_zeros (1, 1))
                     (np_zeros (1, 1)))) (0, 0) \<noteq> 0
   \<and> find_wall_locations
        (mk_track (np_full (1, 1) 2) (np_ones (1, 1)) (np_zeros (1, 1)) (np_zeros (1, 1)))
        None None = Inr {}
   \<and> find_traversable_cells
        (mk_track (np_full (1, 1) 2) (np_ones (1, 1)) (np_zeros (1, 1)) (np_zeros (1, 1)))
        = Inr {}"
  by (simp add: RaceTrack_init_def render_def render_cell_def getitem_def in_bounds_def
      mk_track_def np_full_def np_ones_def np_zeros_def color_scheme_def cells_of_1_1
      find_wall_locations_def find_wall_locations_np_def color_mask_def active_mask_def
      find_traversable_cells_def np_and_def np_or_def np_binop_def broadcast_dim_def
      np_where_def bcast_def eq_scalar_def one_minus_def no_surface_def)

text \<open>
  C4, as the code has it: on a track whose layers have one shape and whose active
  layer is boolean, \<open>find_traversable_cells\<close> returns exactly the cells where
  \<open>walls == 0\<close> or \<open>active == false\<close>; it contains every cell with \<open>walls == 0\<close>, it
  leaves out exactly the cells with \<open>walls != 0\<close> and \<open>active == true\<close>, and it
  contains \<open>find_buttons()\<close> when no cell is both a wall and a button.
\<close>

theorem traversable_cells_characterised:
  assumes "layers_agree G" and "flag_layer (active G)"
  shows "\<exists>T. find_traversable_cells G = Inr T
     \<and> T = {p. in_bounds (walls G) p \<and> (elems (walls G) p = 0 \<or> elems (active G) p = 0)}
     \<and> {p. in_bounds (walls G) p \<and> elems (walls G) p = 0} \<subseteq> T
     \<and> (\<forall>p. in_bounds (walls G) p \<longrightarrow>
            (p \<notin> T) = (elems (walls G) p \<noteq> 0 \<and> elems (active G) p = 1))
     \<and> (exclusive G \<longrightarrow> (\<exists>B. find_buttons G None = Inr B \<and> B \<subseteq> T))"
proof -
  let ?T = "{p. in_bounds (walls G) p \<and> (elems (walls G) p = 0 \<or> elems (active G) p = 0)}"
  from assms(1) have dwa: "dims (walls G) = dims (active G)"
    and dwb: "dims (buttons G) = dims (walls G)" and dws: "dims (walls G) = shape G"
    by (simp_all add: layers_agree_def)
  have flag: "elems (active G) p = 0 \<or> elems (active G) p = 1" if "in_bounds (walls G) p" for p
  proof -
    from that dwa have "in_bounds (active G) p"
      by (simp add: in_bounds_def)
    moreover from assms(2)
    have "\<forall>p. in_bounds (active G) p \<longrightarrow> elems (active G) p = 0 \<or> elems (active G) p = 1"
      by (simp only: flag_layer_iff)
    ultimately show ?thesis by blast
  qed
  have "{p. in_bounds (walls G) p \<and> (elems (walls G) p = 0 \<or> elems (active G) p \<noteq> 1)} = ?T"
    using flag by auto
  with find_traversable_cells_agree [OF dwa]
  have T: "find_traversable_cells G = Inr ?T"
    by simp
  have sub: "{p. in_bounds (walls G) p \<and> elems (walls G) p = 0} \<subseteq> ?T"
    by auto
  have out: "(p \<notin> ?T) = (elems (walls G) p \<noteq> 0 \<and> elems (active G) p = 1)"
    if "in_bounds (walls G) p" for p
    using that flag [OF that] by auto
  have btn: "\<exists>B. find_buttons G None = Inr B \<and> B \<subseteq> ?T" if ex: "exclusive G"
  proof -
    have "elems (walls G) p = 0" if "in_bounds (buttons G) p" "odd (elems (buttons G) p)" for p
    proof -
      from that(1) dwb dws have "fst p < fst (shape G) \<and> snd p < snd (shape G)"
        by (simp add: in_bounds_def)
      moreover from ex
      have "\<forall>p. fst p < fst (shape G) \<and> snd p < snd (shape G) \<longrightarrow>
               elems (walls G) p = 0 \<or> elems (buttons G) p = 0"
        by (simp only: exclusive_iff)
      ultimately have "elems (walls G) p = 0 \<or> elems (buttons G) p = 0"
        by blast
      with that(2) show ?thesis by auto
    qed
    then have "{p. in_bounds (buttons G) p \<and> odd (elems (buttons G) p)} \<subseteq> ?T"
      using dwb by (auto simp: in_bounds_def)
    with find_buttons_agree [OF assms(1), of None] show ?thesis
      by simp
  qed
  from T sub out btn show ?thesis by blast
qed

theorem traversable_cells_characterised_witness:
  "layers_agree (mk_track (np_ones (1, 1)) (np_zeros (1, 1)) (np_zeros (1, 1)) (np_ones (1, 1)))
   \<and> flag_layer (active
         (mk_track (np_ones (1, 1)) (np_zeros (1, 1)) (np_zeros (1, 1)) (np_ones (1, 1))))
   \<and> exclusive (mk_track (np_ones (1, 1)) (np_zeros (1, 1)) (np_zeros (1, 1)) (np_ones (1, 1)))
   \<and> find_traversable_cells
         (mk_track (np_ones (1, 1)) (np_zeros (1, 1)) (np_zeros (1, 1)) (np_ones (1, 1)))
       = Inr {(0, 0)}
   \<and> find_buttons
         (mk_track (np_ones (1, 1)) (np_zeros (1, 1)) (np_zeros (1, 1)) (np_ones (1, 1))) None
       = Inr {}"
proof -
  let ?G = "mk_track (np_ones (1, 1)) (np_zeros (1, 1)) (np_zeros (1, 1)) (np_ones (1, 1))"
  have la: "layers_agree ?G"
    by (simp add: layers_agree_def mk_track_def np_ones_def np_zeros_def)
  have fl: "flag_layer (active ?G)"
    by (simp add: flag_layer_def mk_track_def np_zeros_def cells_of_1_1)
  have ex: "exclusive ?G"
    by (simp add: exclusive_def mk_track_def np_ones_def np_zeros_def cells_of_1_1)
  have fb: "find_buttons ?G None = Inr {}"
    by (simp add: mk_track_def np_ones_def np_zeros_def cells_of_1_1 find_buttons_def
      color_mask_def np_and_def np_binop_def broadcast_dim_def np_where_def bcast_def)
  have cells: "{p. in_bounds (walls ?G) p
      \<and> (elems (walls ?G) p = 0 \<or> elems (active ?G) p = 0)} = {(0, 0)}"
    by (auto simp: mk_track_def np_ones_def np_zeros_def in_bounds_def)
  from traversable_cells_characterised [OF la fl]
  obtain T where "find_traversable_cells ?G = Inr T"
    and "T = {p. in_bounds (walls ?G) p \<and> (elems (walls ?G) p = 0 \<or> elems (active ?G) p = 0)}"
    by blast
  with cells have "find_traversable_cells ?G = Inr {(0, 0)}"
    by simp
  with la fl ex fb show ?thesis by simp
qed

text \<open>
  C4 as the claim states it, refuted: the constructor builds a 1 by 1 track whose cell
  is an active wall and a button at once; \<open>find_buttons()\<close> returns the cell and
  \<open>find_traversable_cells()\<close> does not.
\<close>

theorem button_under_wall_not_traversable:
  "RaceTrack_init (np_ones (1, 1)) (np_ones (1, 1)) (np_ones (1, 1)) (np_zeros (1, 1))
        (0, 0) (0, 0) (10, 10)
     = Inr ((mk_track (np_ones (1, 1)) (np_ones (1, 1)) (np_ones (1, 1)) (np_zeros (1, 1)))
             \<lparr>surface := \<lparr>get_width = 10, get_height = 10, cell_grid = (1, 1),
                  ops = [Rect ''#ffffff'' 0 0 True, BlitTriangle 0 0, GridLine 0 0]\<rparr>\<rparr>)
   \<and> find_buttons
        (mk_track (np_ones (1, 1)) (np_ones (1, 1)) (np_ones (1, 1)) (np_zeros (1, 1))) None
       = Inr {(0, 0)}
   \<and> find_traversable_cells
        (mk_track (np_ones (1, 1)) (np_ones (1, 1)) (np_ones (1, 1)) (np_zeros (1, 1)))
       = Inr {}"
  by (simp add: RaceTrack_init_def render_def render_cell_def getitem_def in_bounds_def
      mk_track_def np_ones_def np_zeros_def color_scheme_def cells_of_1_1
      find_buttons_def color_mask_def find_traversable_cells_def np_and_def np_or_def
      np_binop_def broadcast_dim_def np_where_def bcast_def eq_scalar_def one_minus_def
      no_surface_def)


text \<open>
  C5: for a track as the constructor leaves it, \<open>load_track\<close> of the file \<open>save\<close> wrote
  returns a track with the same walls, active, buttons, colors, target, spawn and
  screen\_size, and rendering the loaded track at any width and height gives what
  rendering the saved track gives.
\<close>

theorem save_load_round_trip:
  assumes "constructed G"
  shows "\<exists>G'. load_track f (save G f w) = (Inr G', save G f w)
     \<and> walls G' = walls G \<and> active G' = active G \<and> buttons G' = buttons G
     \<and> colors G' = colors G \<and> target G' = target G \<and> spawn G' = spawn G
     \<and> screen_size G' = screen_size G
     \<and> (\<forall>wd ht. render G' wd ht = render G wd ht)"
proof -
  let ?t0 = "\<lparr>walls = walls G, active = active G, buttons = buttons G, colors = colors G,
               shape = dims (walls G), spawn = spawn G, target = target G,
               surface = no_surface, screen_size = screen_size G\<rparr>"
  from assms have sh: "shape G = dims (walls G)" and d: "dims (walls G) = dims (active G)"
      "dims (active G) = dims (buttons G)" and rG: "renderable G"
    by (simp_all add: constructed_def)
  from rG sh have r0: "renderable ?t0"
    using renderable_fields [of G "spawn G" "target G" no_surface "screen_size G"] by simp
  from RaceTrack_init_Inr [OF d r0] obtain s where
    init: "RaceTrack_init (walls G) (active G) (buttons G) (colors G) (target G) (spawn G)
             (screen_size G) = Inr (?t0\<lparr>surface := s\<rparr>)"
    by auto
  from r0 have "renderable (?t0\<lparr>surface := s\<rparr>)"
    by (simp only: renderable_surface)
  then obtain s2 where
    r2: "render (?t0\<lparr>surface := s\<rparr>) (fst (screen_size G)) (snd (screen_size G)) = Inr s2"
    using render_ok_iff by blast
  have same: "?t0\<lparr>surface := s, surface := s2\<rparr> = G\<lparr>surface := s2\<rparr>"
    using sh by (cases G) simp
  have "load_track f (save G f w) = (Inr (?t0\<lparr>surface := s, surface := s2\<rparr>), save G f w)"
    using init r2 by (simp add: load_track_def save_def)
  then have "load_track f (save G f w) = (Inr (G\<lparr>surface := s2\<rparr>), save G f w)"
    by (simp only: same)
  moreover have "render (G\<lparr>surface := s2\<rparr>) wd ht = render G wd ht" for wd ht
    by simp
  ultimately show ?thesis
    by (intro exI [of _ "G\<lparr>surface := s2\<rparr>"]) simp
qed

theorem save_load_round_trip_witness:
  "constructed (mk_track (np_ones (1, 1)) (np_ones (1, 1)) (np_zeros (1, 1)) (np_ones (1, 1)))
   \<and> (\<exists>G'. load_track ''tracks/your_map.pkl''
               (save (mk_track (np_ones (1, 1)) (np_ones (1, 1)) (np_zeros (1, 1)) (np_ones (1, 1)))
                  ''tracks/your_map.pkl'' \<lparr>files = Map.empty, memory = []\<rparr>)
             = (Inr G',
                save (mk_track (np_ones (1, 1)) (np_ones (1, 1)) (np_zeros (1, 1)) (np_ones (1, 1)))
                  ''tracks/your_map.pkl'' \<lparr>files = Map.empty, memory = []\<rparr>)
          \<and> walls G' = np_ones (1, 1) \<and> colors G' = np_ones (1, 1) \<and> screen_size G' = (10, 10))"
proof -
  let ?G = "mk_track (np_ones (1, 1)) (np_ones (1, 1)) (np_zeros (1, 1)) (np_ones (1, 1))"
  have c: "constructed ?G"
    by (simp add: constructed_def renderable_def cell_ok_def in_bounds_def mk_track_def
        np_ones_def np_zeros_def cells_of_1_1 color_scheme_def)
  have f: "walls ?G = np_ones (1, 1)" "colors ?G = np_ones (1, 1)" "screen_size ?G = (10, 10)"
    by (simp_all add: mk_track_def)
  from save_load_round_trip [OF c, of "''tracks/your_map.pkl''" "\<lparr>files = Map.empty, memory = []\<rparr>"]
  obtain G' where "load_track ''tracks/your_map.pkl''
               (save ?G ''tracks/your_map.pkl'' \<lparr>files = Map.empty, memory = []\<rparr>)
             = (Inr G', save ?G ''tracks/your_map.pkl'' \<lparr>files = Map.empty, memory = []\<rparr>)"
    and "walls G' = walls ?G" and "colors G' = colors ?G" and "screen_size G' = screen_size ?G"
    by blast
  with c f show ?thesis by auto
qed










end
